theory Spec2Isabelle
  imports Complex_Main "HOL-Library.Sublist"
begin

section \<open>Python values, errors and the Dataset object\<close>

text \<open>
  The values \<^verbatim>\<open>json.load\<close> can produce: \<^verbatim>\<open>None\<close>, booleans, numbers, strings,
  lists and dictionaries with string keys. A dictionary is an association list in
  insertion order, because \<^verbatim>\<open>Dataset.get\<close> iterates over it. The same type holds what
  the methods return, so that "returns \<^verbatim>\<open>None\<close>" and "returns a boolean" are different
  values.
\<close>

datatype pyval =
    PyNone
  | PyBool bool
  | PyInt int
  | PyFloat real
  | PyStr string
  | PyList "pyval list"
  | PyDict "(string \<times> pyval) list"

text \<open>
  Exceptions as values. \<^verbatim>\<open>Exception\<close> and \<^verbatim>\<open>IOError\<close> are the two classes the source
  raises itself, with their messages; the others are raised by the interpreter and the
  libraries (\<^verbatim>\<open>open\<close>, \<^verbatim>\<open>gzip\<close>, \<^verbatim>\<open>pickle\<close>, \<^verbatim>\<open>json\<close>) underneath it.
\<close>

datatype error =
    Exception string
  | IOError string
  | AttributeError string
  | TypeError string
  | ValueError string
  | UnpicklingError
  | UnicodeDecodeError

text \<open>\<^verbatim>\<open>class Dataset(object)\<close>: its only attribute is \<^verbatim>\<open>self.data\<close>.\<close>

record dataset =
  data :: pyval

text \<open>
  What a pickle can hold: an instance of \<^verbatim>\<open>Dataset\<close>, or a built-in value (a plain
  mapping, a list, ...).
\<close>

datatype pyobj = Instance dataset | Builtin pyval

section \<open>Strings\<close>

text \<open>
  \<^verbatim>\<open>str.split(sep)\<close> for a non-empty separator: scan from the left, cut at every
  occurrence of \<open>sep\<close> and resume after it. The empty separator raises \<^verbatim>\<open>ValueError\<close>.
\<close>

function split_from :: "string \<Rightarrow> string \<Rightarrow> string \<Rightarrow> string list" where
  "split_from sep cur [] = [cur]"
| "split_from sep cur (c # cs) =
     (if sep \<noteq> [] \<and> prefix sep (c # cs)
      then cur # split_from sep [] (drop (length sep) (c # cs))
      else split_from sep (cur @ [c]) cs)"
  by pat_completeness auto
termination
  by (relation "measure (\<lambda>(sep, cur, s). length s)") (auto simp: neq_Nil_conv)

definition str_split :: "string \<Rightarrow> string \<Rightarrow> error + string list" where
  "str_split s sep =
     (if sep = [] then Inl (ValueError ''empty separator'') else Inr (split_from sep [] s))"

text \<open>\<^verbatim>\<open>str.endswith(suffix)\<close>.\<close>

definition endswith :: "string \<Rightarrow> string \<Rightarrow> bool" where
  "endswith s suf \<longleftrightarrow>
     length suf \<le> length s \<and> drop (length s - length suf) s = suf"

section \<open>Dataset.has\_data\<close>

text \<open>
  \<^verbatim>\<open>self.data.get(ds, None)\<close>: on a dictionary the lookup with a default; every other
  value \<^verbatim>\<open>json.load\<close> returns has no attribute \<^verbatim>\<open>get\<close>.
\<close>

definition dict_get :: "pyval \<Rightarrow> string \<Rightarrow> pyval \<Rightarrow> error + pyval" where
  "dict_get obj k dflt =
     (case obj of
        PyDict kvs \<Rightarrow> Inr (case map_of kvs k of Some v \<Rightarrow> v | None \<Rightarrow> dflt)
      | _ \<Rightarrow> Inl (AttributeError ''get''))"

text \<open>
  The loop of \<^verbatim>\<open>has_data\<close>: the value of the lookup is dropped, any exception of the
  lookup is caught by the bare \<^verbatim>\<open>except\<close> and replaced by \<^verbatim>\<open>Exception('Nope')\<close>, and
  falling off the end of the loop returns \<^verbatim>\<open>None\<close>.
\<close>

fun has_data_loop :: "pyval \<Rightarrow> string list \<Rightarrow> error + pyval" where
  "has_data_loop d [] = Inr PyNone"
| "has_data_loop d (ds # rest) =
     (case dict_get d ds PyNone of
        Inl _ \<Rightarrow> Inl (Exception ''Nope'')
      | Inr _ \<Rightarrow> has_data_loop d rest)"

definition has_data :: "dataset \<Rightarrow> string \<Rightarrow> error + pyval" where
  "has_data self dat_str =
     (case str_split dat_str '' AND '' of
        Inl e \<Rightarrow> Inl e
      | Inr clauses \<Rightarrow> has_data_loop (data self) clauses)"

section \<open>Dataset.get and the accessors\<close>

text \<open>
  The \<^verbatim>\<open>algorithm\<close> argument of \<^verbatim>\<open>get\<close>: \<^verbatim>\<open>None\<close> (the default, falsy) or an object,
  which is truthy and of which the method reads the attribute \<^verbatim>\<open>req_data\<close>.
\<close>

record algorithm =
  req_data :: string

text \<open>
  \<^verbatim>\<open>for stud in self.data\<close>: a dictionary yields its keys, a list its elements, a
  string its characters; the other values are not iterable.
\<close>

definition iter :: "pyval \<Rightarrow> error + pyval list" where
  "iter v =
     (case v of
        PyDict kvs \<Rightarrow> Inr (map (\<lambda>kv. PyStr (fst kv)) kvs)
      | PyList xs \<Rightarrow> Inr xs
      | PyStr s \<Rightarrow> Inr (map (\<lambda>c. PyStr [c]) s)
      | _ \<Rightarrow> Inl (TypeError ''object is not iterable''))"

text \<open>
  \<^verbatim>\<open>stud.has_data(req_data)\<close> where \<open>stud\<close> is an element of \<^verbatim>\<open>self.data\<close>: none of the
  values of \<^typ>\<open>pyval\<close> has an attribute \<^verbatim>\<open>has_data\<close>.
\<close>

definition stud_has_data :: "pyval \<Rightarrow> string \<Rightarrow> error + pyval" where
  "stud_has_data stud req = Inl (AttributeError ''has_data'')"

text \<open>Truth value of a Python value, as the filter of a comprehension tests it.\<close>

fun truthy :: "pyval \<Rightarrow> bool" where
  "truthy PyNone = False"
| "truthy (PyBool b) = b"
| "truthy (PyInt i) = (i \<noteq> 0)"
| "truthy (PyFloat x) = (x \<noteq> 0)"
| "truthy (PyStr s) = (s \<noteq> [])"
| "truthy (PyList xs) = (xs \<noteq> [])"
| "truthy (PyDict kvs) = (kvs \<noteq> [])"

text \<open>The list comprehension \<^verbatim>\<open>[stud for stud in self.data if stud.has_data(req_data)]\<close>.\<close>

fun comprehension :: "pyval list \<Rightarrow> string \<Rightarrow> error + pyval list" where
  "comprehension [] req = Inr []"
| "comprehension (stud # studs) req =
     (case stud_has_data stud req of
        Inl e \<Rightarrow> Inl e
      | Inr keep \<Rightarrow>
          (case comprehension studs req of
             Inl e \<Rightarrow> Inl e
           | Inr temp \<Rightarrow> Inr (if truthy keep then stud # temp else temp)))"

text \<open>
  \<^verbatim>\<open>get(self, search='', algorithm=None)\<close>: the list \<open>temp\<close> is built and dropped;
  the method has no \<^verbatim>\<open>return\<close>, so it returns \<^verbatim>\<open>None\<close> on every path that does not
  raise.
\<close>

definition get :: "dataset \<Rightarrow> string \<Rightarrow> algorithm option \<Rightarrow> error + pyval" where
  "get self search alg =
     (case alg of
        None \<Rightarrow> Inr PyNone
      | Some a \<Rightarrow>
          (case iter (data self) of
             Inl e \<Rightarrow> Inl e
           | Inr studs \<Rightarrow>
               (case comprehension studs (req_data a) of
                  Inl e \<Rightarrow> Inl e
                | Inr temp \<Rightarrow> Inr PyNone)))"

text \<open>The four accessors have the body \<^verbatim>\<open>pass\<close>.\<close>

definition get_studies :: "dataset \<Rightarrow> error + pyval" where
  "get_studies self = Inr PyNone"

definition get_metadata :: "dataset \<Rightarrow> error + pyval" where
  "get_metadata self = Inr PyNone"

definition get_images :: "dataset \<Rightarrow> error + pyval" where
  "get_images self = Inr PyNone"

definition get_coordinates :: "dataset \<Rightarrow> error + pyval" where
  "get_coordinates self = Inr PyNone"

section \<open>Files, pickle, gzip and json\<close>

text \<open>
  The libraries are modelled by their contracts, on symbolic file contents:
  \<^item> \<open>Json_text v\<close> is a text file that \<^verbatim>\<open>json.load\<close> decodes to \<open>v\<close>;
  \<^item> \<open>Pickle obj\<close> is the byte stream \<^verbatim>\<open>pickle.dump\<close> writes for \<open>obj\<close>;
  \<^item> \<open>Pickle_py2 obj\<close> is a pickle written by Python 2 holding 8-bit strings, which
    Python 3 only loads with \<^verbatim>\<open>encoding='latin'\<close>;
  \<^item> \<open>Gzip b\<close> is the gzip-compressed stream of the content \<open>b\<close>;
  \<^item> \<open>Garbage\<close> is anything else.
\<close>

datatype blob =
    Json_text pyval
  | Pickle pyobj
  | Pickle_py2 pyobj
  | Gzip blob
  | Garbage

text \<open>A path names a regular file, a directory, or nothing.\<close>

datatype node = File blob | Directory

type_synonym filesystem = "string \<rightharpoonup> node"

text \<open>Opening for reading (\<^verbatim>\<open>'r'\<close>, \<^verbatim>\<open>'rb'\<close>): the content, or \<^verbatim>\<open>IOError\<close>.\<close>

definition open_read :: "filesystem \<Rightarrow> string \<Rightarrow> error + blob" where
  "open_read fs filename =
     (case fs filename of
        None \<Rightarrow> Inl (IOError ''No such file or directory'')
      | Some Directory \<Rightarrow> Inl (IOError ''Is a directory'')
      | Some (File b) \<Rightarrow> Inr b)"

text \<open>
  Opening for writing (\<^verbatim>\<open>'wb'\<close>) and writing \<open>b\<close>: the file is created or replaced;
  a directory cannot be opened.
\<close>

definition open_write :: "filesystem \<Rightarrow> string \<Rightarrow> blob \<Rightarrow> error + filesystem" where
  "open_write fs filename b =
     (case fs filename of
        Some Directory \<Rightarrow> Inl (IOError ''Is a directory'')
      | _ \<Rightarrow> Inr (fs(filename \<mapsto> File b)))"

definition json_load :: "blob \<Rightarrow> error + pyval" where
  "json_load b =
     (case b of
        Json_text v \<Rightarrow> Inr v
      | _ \<Rightarrow> Inl (ValueError ''No JSON object could be decoded''))"

definition pickle_dump :: "pyobj \<Rightarrow> blob" where
  "pickle_dump obj = Pickle obj"

text \<open>\<^verbatim>\<open>pickle.load(file_object)\<close>, and with \<^verbatim>\<open>encoding='latin'\<close> when \<open>latin\<close> holds.\<close>

definition pickle_load :: "bool \<Rightarrow> blob \<Rightarrow> error + pyobj" where
  "pickle_load latin b =
     (case b of
        Pickle obj \<Rightarrow> Inr obj
      | Pickle_py2 obj \<Rightarrow> (if latin then Inr obj else Inl UnicodeDecodeError)
      | _ \<Rightarrow> Inl UnpicklingError)"

definition gzip_compress :: "blob \<Rightarrow> blob" where
  "gzip_compress b = Gzip b"

definition gzip_decompress :: "blob \<Rightarrow> error + blob" where
  "gzip_decompress b =
     (case b of
        Gzip c \<Rightarrow> Inr c
      | _ \<Rightarrow> Inl (IOError ''Not a gzipped file''))"

section \<open>Dataset construction, save and load\<close>

text \<open>\<^verbatim>\<open>Dataset.__init__(self, dataset_file)\<close>: \<^verbatim>\<open>self.data = json.load(fo)\<close>.\<close>

definition init :: "filesystem \<Rightarrow> string \<Rightarrow> error + dataset" where
  "init fs dataset_file =
     (case open_read fs dataset_file of
        Inl e \<Rightarrow> Inl e
      | Inr fo \<Rightarrow>
          (case json_load fo of
             Inl e \<Rightarrow> Inl e
           | Inr v \<Rightarrow> Inr \<lparr>data = v\<rparr>))"

text \<open>\<^verbatim>\<open>Dataset.save(self, filename)\<close>.\<close>

definition save :: "dataset \<Rightarrow> filesystem \<Rightarrow> string \<Rightarrow> error + filesystem" where
  "save self fs filename =
     (if endswith filename ''z''
      then open_write fs filename (gzip_compress (pickle_dump (Instance self)))
      else open_write fs filename (pickle_dump (Instance self)))"

text \<open>
  One branch of \<^verbatim>\<open>load\<close>: \<^verbatim>\<open>pickle.load\<close>, and again with \<^verbatim>\<open>encoding='latin'\<close> when
  the first attempt raises \<^verbatim>\<open>UnicodeDecodeError\<close>; every other exception propagates.
\<close>

definition load_with_retry :: "blob \<Rightarrow> error + pyobj" where
  "load_with_retry file_object =
     (case pickle_load False file_object of
        Inl UnicodeDecodeError \<Rightarrow> pickle_load True file_object
      | r \<Rightarrow> r)"

text \<open>
  The first half of \<^verbatim>\<open>Dataset.load\<close>: the object the file decodes to, through
  \<^verbatim>\<open>gzip.GzipFile\<close> when the name ends with \<^verbatim>\<open>'z'\<close> and through \<^verbatim>\<open>open\<close> otherwise.
\<close>

definition unpickle_file :: "filesystem \<Rightarrow> string \<Rightarrow> error + pyobj" where
  "unpickle_file fs filename =
     (if endswith filename ''z''
      then (case open_read fs filename of
              Inl e \<Rightarrow> Inl e
            | Inr raw \<Rightarrow>
                (case gzip_decompress raw of
                   Inl e \<Rightarrow> Inl e
                 | Inr file_object \<Rightarrow> load_with_retry file_object))
      else (case open_read fs filename of
              Inl e \<Rightarrow> Inl e
            | Inr file_object \<Rightarrow> load_with_retry file_object))"

text \<open>
  \<^verbatim>\<open>type(dataset)\<close> as the message of the \<^verbatim>\<open>IOError\<close> prints it (in the form
  Python 3 gives it).
\<close>

fun type_repr :: "pyobj \<Rightarrow> string" where
  "type_repr (Instance d) = ''<class 'nimare.dataset.dataset.Dataset'>''"
| "type_repr (Builtin PyNone) = ''<class 'NoneType'>''"
| "type_repr (Builtin (PyBool b)) = ''<class 'bool'>''"
| "type_repr (Builtin (PyInt i)) = ''<class 'int'>''"
| "type_repr (Builtin (PyFloat x)) = ''<class 'float'>''"
| "type_repr (Builtin (PyStr s)) = ''<class 'str'>''"
| "type_repr (Builtin (PyList xs)) = ''<class 'list'>''"
| "type_repr (Builtin (PyDict kvs)) = ''<class 'dict'>''"

text \<open>\<^verbatim>\<open>Dataset.load(cls, filename)\<close>, with the \<^verbatim>\<open>isinstance\<close> check as a case split.\<close>

definition load :: "filesystem \<Rightarrow> string \<Rightarrow> error + dataset" where
  "load fs filename =
     (case unpickle_file fs filename of
        Inl e \<Rightarrow> Inl e
      | Inr (Instance dataset) \<Rightarrow> Inr dataset
      | Inr obj \<Rightarrow>
          Inl (IOError (''Pickled object must be `nimare.dataset.dataset.Dataset`, not ''
                        @ type_repr obj)))"

section \<open>An example dataset\<close>

text \<open>
  Two studies as a JSON document: \<open>S1\<close> with one coordinate and a z map, \<open>S2\<close> with
  no coordinates and a beta map.
\<close>

definition two_studies :: pyval where
  "two_studies = PyDict
     [(''S1'', PyDict [(''coordinates'', PyList [PyList [PyInt 1, PyInt 2, PyInt 3]]),
                       (''images'', PyDict [(''z'', PyStr ''s1_z.nii'')])]),
      (''S2'', PyDict [(''coordinates'', PyList []),
                       (''images'', PyDict [(''beta'', PyStr ''s2_beta.nii'')])])]"

section \<open>Properties of has\_data\<close>

lemma has_data_loop_dict: "has_data_loop (PyDict kvs) clauses = Inr PyNone"
  by (induction clauses) (simp_all add: dict_get_def)

text \<open>Splitting never yields the empty list, so the loop body runs at least once.\<close>

lemma split_from_nonempty: "split_from sep cur s \<noteq> []"
  by (induction sep cur s rule: split_from.induct) simp_all

lemma has_data_loop_not_dict:
  assumes "\<forall>kvs. d \<noteq> PyDict kvs" and "clauses \<noteq> []"
  shows "has_data_loop d clauses = Inl (Exception ''Nope'')"
  using assms by (cases clauses; cases d) (simp_all add: dict_get_def)

lemma has_data_cases:
  "has_data self dat_str =
     (case data self of PyDict kvs \<Rightarrow> Inr PyNone | _ \<Rightarrow> Inl (Exception ''Nope''))"
proof (cases "\<exists>kvs. data self = PyDict kvs")
  case True
  then show ?thesis
    by (auto simp: has_data_def str_split_def has_data_loop_dict)
next
  case False
  then have "has_data_loop (data self) (split_from '' AND '' [] dat_str) = Inl (Exception ''Nope'')"
    by (intro has_data_loop_not_dict) (auto simp: split_from_nonempty)
  with False show ?thesis
    by (cases "data self") (simp_all add: has_data_def str_split_def)
qed

text \<open>
  Claim C10. For a dataset whose data is a mapping and every requirement string,
  the lookup \<^verbatim>\<open>self.data.get(ds, None)\<close> raises for no clause, so the
  \<^verbatim>\<open>except\<close> branch is never taken, and \<^verbatim>\<open>has_data\<close> returns \<^verbatim>\<open>None\<close> whatever keys the
  data holds.
\<close>

theorem has_data_never_raises_on_mapping:
  assumes "data self = PyDict kvs"
  shows "(\<forall>ds e. dict_get (data self) ds PyNone \<noteq> Inl e)
         \<and> has_data self dat_str = Inr PyNone"
  using assms by (simp add: has_data_cases dict_get_def)

theorem has_data_never_raises_on_mapping_witness:
  "data \<lparr>data = PyDict [(''z'', PyStr ''s1_z.nii'')]\<rparr> = PyDict [(''z'', PyStr ''s1_z.nii'')]
   \<and> (\<forall>ds e. dict_get (PyDict [(''z'', PyStr ''s1_z.nii'')]) ds PyNone \<noteq> Inl e)
   \<and> has_data \<lparr>data = PyDict [(''z'', PyStr ''s1_z.nii'')]\<rparr> ''z AND sample_size'' = Inr PyNone"
proof -
  have h: "data \<lparr>data = PyDict [(''z'', PyStr ''s1_z.nii'')]\<rparr> = PyDict [(''z'', PyStr ''s1_z.nii'')]"
    by simp
  show ?thesis
    using h has_data_never_raises_on_mapping [OF h, of "''z AND sample_size''"] by simp
qed

text \<open>
  Claim C3, as stated, fails: on data that is not a mapping the requirement
  \<^verbatim>\<open>"bogus_field"\<close> makes \<^verbatim>\<open>has_data\<close> raise the generic \<^verbatim>\<open>Exception('Nope')\<close>, whose
  message does not name the clause.
\<close>

theorem has_data_unknown_clause_counterexample:
  "has_data \<lparr>data = PyList []\<rparr> ''bogus_field'' = Inl (Exception ''Nope'')"
  by (simp add: has_data_def str_split_def dict_get_def)

text \<open>
  Claim C3, amended. For every dataset and every requirement string, also one with a
  clause that names no field, the only error \<^verbatim>\<open>has_data\<close> raises is the generic
  \<^verbatim>\<open>Exception('Nope')\<close>, which names no clause.
\<close>

theorem has_data_generic_failure_only:
  assumes "has_data self dat_str = Inl e"
  shows "e = Exception ''Nope''"
  using assms by (simp add: has_data_cases split: pyval.splits)

theorem has_data_generic_failure_only_witness:
  "has_data \<lparr>data = PyNone\<rparr> ''z AND bogus_field'' = Inl (Exception ''Nope'')"
proof -
  obtain e where h: "has_data \<lparr>data = PyNone\<rparr> ''z AND bogus_field'' = Inl e"
    by (simp add: has_data_cases)
  from has_data_generic_failure_only [OF h] h show ?thesis
    by simp
qed

text \<open>
  Claim C4. The code does not meet it: the clauses split off at \<^verbatim>\<open>" AND "\<close> are
  looked up and the lookups are discarded, so that \<^verbatim>\<open>has_data\<close> returns \<^verbatim>\<open>None\<close> and not
  a boolean, both for a requirement whose field is present and not null and for one
  whose field is absent.
\<close>

theorem has_data_discards_lookups:
  "has_data \<lparr>data = PyDict [(''z'', PyStr ''s1_z.nii'')]\<rparr> ''z'' = Inr PyNone
   \<and> has_data \<lparr>data = PyDict [(''z'', PyStr ''s1_z.nii'')]\<rparr> ''z AND sample_size'' = Inr PyNone"
  by (simp add: has_data_def str_split_def dict_get_def)

section \<open>Properties of get and the accessors\<close>

text \<open>
  Claim C5. The code does not meet it: on the example dataset \<^verbatim>\<open>get\<close> calls
  \<^verbatim>\<open>has_data\<close> on the first key of the data, a string, and raises \<^verbatim>\<open>AttributeError\<close>
  instead of returning the studies that have a z map; on data without studies it
  returns \<^verbatim>\<open>None\<close> and not the empty sequence.
\<close>

theorem get_selects_nothing:
  "get \<lparr>data = two_studies\<rparr> '''' (Some \<lparr>req_data = ''z''\<rparr>) = Inl (AttributeError ''has_data'')
   \<and> get \<lparr>data = PyDict []\<rparr> '''' (Some \<lparr>req_data = ''z''\<rparr>) = Inr PyNone"
  by (simp add: get_def iter_def stud_has_data_def two_studies_def)

text \<open>
  Claim C8, as stated, fails: \<^verbatim>\<open>get_studies\<close> is not implemented and returns \<^verbatim>\<open>None\<close>
  without raising.
\<close>

theorem get_studies_counterexample:
  "get_studies \<lparr>data = two_studies\<rparr> = Inr PyNone"
  by (simp add: get_studies_def)

text \<open>
  Claim C8, amended. Each of \<^verbatim>\<open>get_studies\<close>, \<^verbatim>\<open>get_metadata\<close>, \<^verbatim>\<open>get_images\<close> and
  \<^verbatim>\<open>get_coordinates\<close> is total: for every dataset it returns \<^verbatim>\<open>None\<close> and raises
  nothing.
\<close>

theorem accessors_return_none:
  "get_studies self = Inr PyNone \<and> get_metadata self = Inr PyNone
   \<and> get_images self = Inr PyNone \<and> get_coordinates self = Inr PyNone"
  by (simp add: get_studies_def get_metadata_def get_images_def get_coordinates_def)

section \<open>Properties of construction, save and load\<close>

text \<open>
  Claim C7, as stated, fails: a study entry without the key \<open>images\<close> is stored as it
  is in the file, and no entry with an empty \<open>images\<close> mapping is made of it.
\<close>

theorem init_images_default_counterexample:
  "init [''studies.json'' \<mapsto> File (Json_text (PyDict [(''S1'', PyDict [(''coordinates'', PyList [])])]))]
        ''studies.json''
     = Inr \<lparr>data = PyDict [(''S1'', PyDict [(''coordinates'', PyList [])])]\<rparr>
   \<and> init [''studies.json'' \<mapsto> File (Json_text (PyDict [(''S1'', PyDict [(''coordinates'', PyList [])])]))]
        ''studies.json''
     \<noteq> Inr \<lparr>data = PyDict [(''S1'', PyDict [(''coordinates'', PyList []), (''images'', PyDict [])])]\<rparr>"
  by (simp add: init_def open_read_def json_load_def)

text \<open>
  Claim C7, amended. For every structured (JSON) input file, loading succeeds and
  keeps the decoded document unchanged as the data of the dataset: a study entry with
  no \<open>images\<close>, \<open>metadata\<close> or \<open>coordinates\<close> key stays without it, and no error is
  raised.
\<close>

theorem init_keeps_document:
  assumes "fs dataset_file = Some (File (Json_text v))"
  shows "init fs dataset_file = Inr \<lparr>data = v\<rparr>"
  using assms by (simp add: init_def open_read_def json_load_def)

theorem init_keeps_document_witness:
  "[''studies.json'' \<mapsto> File (Json_text (PyDict [(''S1'', PyDict [])]))] ''studies.json''
     = Some (File (Json_text (PyDict [(''S1'', PyDict [])])))
   \<and> init [''studies.json'' \<mapsto> File (Json_text (PyDict [(''S1'', PyDict [])]))] ''studies.json''
     = Inr \<lparr>data = PyDict [(''S1'', PyDict [])]\<rparr>"
proof -
  have h: "[''studies.json'' \<mapsto> File (Json_text (PyDict [(''S1'', PyDict [])]))] ''studies.json''
     = Some (File (Json_text (PyDict [(''S1'', PyDict [])])))"
    by simp
  show ?thesis
    using h init_keeps_document
      [of "[''studies.json'' \<mapsto> File (Json_text (PyDict [(''S1'', PyDict [])]))]"
          "''studies.json''" "PyDict [(''S1'', PyDict [])]"]
    by simp
qed

text \<open>
  Claim C1. For every dataset \<open>D\<close> and every path, whether it ends with \<^verbatim>\<open>'z'\<close> (the
  compressed convention) or not: when \<^verbatim>\<open>save\<close> has written \<open>D\<close> to the path, \<^verbatim>\<open>load\<close>
  of the same path returns a dataset equal to \<open>D\<close>.
\<close>

theorem save_load_roundtrip:
  assumes "save D fs filename = Inr fs'"
  shows "load fs' filename = Inr D"
  using assms
  by (auto simp: save_def load_def unpickle_file_def open_write_def open_read_def
      gzip_compress_def gzip_decompress_def pickle_dump_def pickle_load_def load_with_retry_def
      split: if_splits option.splits node.splits)

theorem save_load_roundtrip_witness:
  "save \<lparr>data = two_studies\<rparr> Map.empty ''dataset.pklz''
     = Inr [''dataset.pklz'' \<mapsto> File (Gzip (Pickle (Instance \<lparr>data = two_studies\<rparr>)))]
   \<and> load [''dataset.pklz'' \<mapsto> File (Gzip (Pickle (Instance \<lparr>data = two_studies\<rparr>)))]
        ''dataset.pklz''
     = Inr \<lparr>data = two_studies\<rparr>
   \<and> save \<lparr>data = two_studies\<rparr> Map.empty ''dataset.pkl''
     = Inr [''dataset.pkl'' \<mapsto> File (Pickle (Instance \<lparr>data = two_studies\<rparr>))]
   \<and> load [''dataset.pkl'' \<mapsto> File (Pickle (Instance \<lparr>data = two_studies\<rparr>))] ''dataset.pkl''
     = Inr \<lparr>data = two_studies\<rparr>"
proof -
  have z: "save \<lparr>data = two_studies\<rparr> Map.empty ''dataset.pklz''
     = Inr [''dataset.pklz'' \<mapsto> File (Gzip (Pickle (Instance \<lparr>data = two_studies\<rparr>)))]"
    by (simp add: save_def endswith_def open_write_def gzip_compress_def pickle_dump_def)
  have raw: "save \<lparr>data = two_studies\<rparr> Map.empty ''dataset.pkl''
     = Inr [''dataset.pkl'' \<mapsto> File (Pickle (Instance \<lparr>data = two_studies\<rparr>))]"
    by (simp add: save_def endswith_def open_write_def pickle_dump_def)
  show ?thesis
    using z raw save_load_roundtrip [OF z] save_load_roundtrip [OF raw] by simp
qed

text \<open>
  Claim C2. When the file decodes to an object that is not a \<^verbatim>\<open>Dataset\<close> instance (a
  plain mapping, a list, ...), \<^verbatim>\<open>load\<close> fails with the error of its type check, whose
  message names the type found, and returns no object.
\<close>

theorem load_rejects_non_dataset:
  assumes "unpickle_file fs filename = Inr (Builtin v)"
  shows "load fs filename =
           Inl (IOError (''Pickled object must be `nimare.dataset.dataset.Dataset`, not ''
                         @ type_repr (Builtin v)))
         \<and> (\<forall>dataset. load fs filename \<noteq> Inr dataset)"
  using assms by (simp add: load_def)

theorem load_rejects_non_dataset_witness:
  "unpickle_file [''mapping.pkl'' \<mapsto> File (Pickle (Builtin two_studies))] ''mapping.pkl''
     = Inr (Builtin two_studies)
   \<and> load [''mapping.pkl'' \<mapsto> File (Pickle (Builtin two_studies))] ''mapping.pkl''
     = Inl (IOError ''Pickled object must be `nimare.dataset.dataset.Dataset`, not <class 'dict'>'')
   \<and> (\<forall>dataset. load [''mapping.pkl'' \<mapsto> File (Pickle (Builtin two_studies))] ''mapping.pkl''
          \<noteq> Inr dataset)"
proof -
  have h: "unpickle_file [''mapping.pkl'' \<mapsto> File (Pickle (Builtin two_studies))] ''mapping.pkl''
     = Inr (Builtin two_studies)"
    by (simp add: unpickle_file_def endswith_def open_read_def load_with_retry_def pickle_load_def)
  show ?thesis
    using h load_rejects_non_dataset [OF h] by (simp add: two_studies_def)
qed

text \<open>
  Claim C6. \<^verbatim>\<open>save\<close> writes the gzip-compressed pickle exactly when the path ends
  with \<^verbatim>\<open>'z'\<close> and the raw pickle otherwise; \<^verbatim>\<open>load\<close> decompresses exactly when the
  path ends with \<^verbatim>\<open>'z'\<close>: under such a path a compressed file is loaded and a raw
  one is refused by gzip, under any other path a raw file is loaded and a
  compressed one is refused by pickle, which reads its bytes as they are.
\<close>

theorem compression_follows_suffix:
  "(save self fs filename = Inr fs' \<longrightarrow>
      fs' filename = Some (File (if endswith filename ''z''
                                 then Gzip (Pickle (Instance self))
                                 else Pickle (Instance self))))
   \<and> (fs filename = Some (File (Gzip (Pickle (Instance self)))) \<longrightarrow>
      load fs filename = (if endswith filename ''z'' then Inr self else Inl UnpicklingError))
   \<and> (fs filename = Some (File (Pickle (Instance self))) \<longrightarrow>
      load fs filename =
        (if endswith filename ''z'' then Inl (IOError ''Not a gzipped file'') else Inr self))"
  by (auto simp: save_def load_def unpickle_file_def open_write_def open_read_def
      gzip_compress_def gzip_decompress_def pickle_dump_def pickle_load_def load_with_retry_def
      split: option.splits node.splits)

theorem compression_follows_suffix_witness:
  "save \<lparr>data = two_studies\<rparr> Map.empty ''dataset.pklz''
     = Inr [''dataset.pklz'' \<mapsto> File (Gzip (Pickle (Instance \<lparr>data = two_studies\<rparr>)))]
   \<and> save \<lparr>data = two_studies\<rparr> Map.empty ''dataset.pkl''
     = Inr [''dataset.pkl'' \<mapsto> File (Pickle (Instance \<lparr>data = two_studies\<rparr>))]
   \<and> load [''dataset.pklz'' \<mapsto> File (Gzip (Pickle (Instance \<lparr>data = two_studies\<rparr>)))]
        ''dataset.pklz'' = Inr \<lparr>data = two_studies\<rparr>
   \<and> load [''dataset.pkl'' \<mapsto> File (Gzip (Pickle (Instance \<lparr>data = two_studies\<rparr>)))]
        ''dataset.pkl'' = Inl UnpicklingError
   \<and> load [''dataset.pklz'' \<mapsto> File (Pickle (Instance \<lparr>data = two_studies\<rparr>))]
        ''dataset.pklz'' = Inl (IOError ''Not a gzipped file'')
   \<and> load [''dataset.pkl'' \<mapsto> File (Pickle (Instance \<lparr>data = two_studies\<rparr>))]
        ''dataset.pkl'' = Inr \<lparr>data = two_studies\<rparr>"
proof -
  let ?D = "\<lparr>data = two_studies\<rparr>"
  have z: "endswith ''dataset.pklz'' ''z''" and raw: "\<not> endswith ''dataset.pkl'' ''z''"
    by (simp_all add: endswith_def)
  have sz: "save ?D Map.empty ''dataset.pklz''
     = Inr [''dataset.pklz'' \<mapsto> File (Gzip (Pickle (Instance ?D)))]"
    by (simp add: save_def z open_write_def gzip_compress_def pickle_dump_def)
  have sr: "save ?D Map.empty ''dataset.pkl''
     = Inr [''dataset.pkl'' \<mapsto> File (Pickle (Instance ?D))]"
    by (simp add: save_def raw open_write_def pickle_dump_def)
  show ?thesis
    using sz sr z raw
      compression_follows_suffix
        [of ?D Map.empty "''dataset.pklz''" "[''dataset.pklz'' \<mapsto> File (Gzip (Pickle (Instance ?D)))]"]
      compression_follows_suffix
        [of ?D "[''dataset.pklz'' \<mapsto> File (Gzip (Pickle (Instance ?D)))]" "''dataset.pklz''"]
      compression_follows_suffix
        [of ?D "[''dataset.pkl'' \<mapsto> File (Gzip (Pickle (Instance ?D)))]" "''dataset.pkl''"]
      compression_follows_suffix
        [of ?D "[''dataset.pklz'' \<mapsto> File (Pickle (Instance ?D))]" "''dataset.pklz''"]
      compression_follows_suffix
        [of ?D "[''dataset.pkl'' \<mapsto> File (Pickle (Instance ?D))]" "''dataset.pkl''"]
    by simp
qed

end
